theory Spec2Isabelle
  imports Main "HOL-Library.Sublist"
begin

section \<open>Text and characters\<close>

text \<open>
  The symptom analyser works on Python \<open>str\<close> values, modelled as \<open>string\<close> (a list of
  8-bit characters). The character classes below are the ones Python uses on ASCII code
  points (\<open>str.isspace\<close>, the regular-expression classes \<open>\s\<close> and \<open>\w\<close>,
  \<open>str.lower\<close>); characters beyond ASCII are outside the model, which treats a byte above
  127 as neither whitespace nor a word character. The few non-ASCII symbols of the fixed
  response templates are written as their UTF-8 bytes.
\<close>

text \<open>\<open>str.isspace\<close> and \<open>\s\<close> on ASCII: TAB, LF, VT, FF, CR, the separators FS, GS, RS, US,
  and the space.\<close>

definition is_space :: "char \<Rightarrow> bool" where
  "is_space c = (let n = (of_char c :: nat) in (9 \<le> n \<and> n \<le> 13) \<or> (28 \<le> n \<and> n \<le> 32))"

definition is_upper :: "char \<Rightarrow> bool" where
  "is_upper c = (let n = (of_char c :: nat) in 65 \<le> n \<and> n \<le> 90)"

definition is_lower :: "char \<Rightarrow> bool" where
  "is_lower c = (let n = (of_char c :: nat) in 97 \<le> n \<and> n \<le> 122)"

definition is_digit :: "char \<Rightarrow> bool" where
  "is_digit c = (let n = (of_char c :: nat) in 48 \<le> n \<and> n \<le> 57)"

text \<open>The class \<open>\w\<close> on ASCII: letters, digits and the underscore.\<close>

definition is_word :: "char \<Rightarrow> bool" where
  "is_word c = (is_upper c \<or> is_lower c \<or> is_digit c \<or> c = CHR ''_'')"

text \<open>The characters that \<open>re.sub(r'[^\w\s\-.,!?]', '', symptom)\<close> keeps.\<close>

definition is_kept :: "char \<Rightarrow> bool" where
  "is_kept c = (is_word c \<or> is_space c \<or> c \<in> set ''-.,!?'')"

definition lower_char :: "char \<Rightarrow> char" where
  "lower_char c = (if is_upper c then char_of ((of_char c :: nat) + 32) else c)"

definition lower :: "string \<Rightarrow> string" where
  "lower s = map lower_char s"

text \<open>\<open>str.strip()\<close>: whitespace removed at both ends.\<close>

definition strip :: "string \<Rightarrow> string" where
  "strip s = rev (dropWhile is_space (rev (dropWhile is_space s)))"

text \<open>\<open>re.sub(r'\s+', ' ', s)\<close>: every maximal run of whitespace becomes one space.\<close>

function collapse_ws :: "string \<Rightarrow> string" where
  "collapse_ws [] = []"
| "collapse_ws (c # cs) =
     (if is_space c then CHR '' '' # collapse_ws (dropWhile is_space cs)
      else c # collapse_ws cs)"
  by pat_completeness auto
termination
  by (relation "measure length") (auto simp: length_dropWhile_le le_imp_less_Suc)

text \<open>\<open>pattern in text\<close>: the pattern occurs as a contiguous substring.\<close>

fun str_in :: "string \<Rightarrow> string \<Rightarrow> bool" where
  "str_in p [] = (p = [])"
| "str_in p (c # cs) = (prefix p (c # cs) \<or> str_in p cs)"

text \<open>\<open>"\n".join(lines)\<close>.\<close>

fun join_nl :: "string list \<Rightarrow> string" where
  "join_nl [] = []"
| "join_nl [l] = l"
| "join_nl (l # ls) = l @ [CHR 0x0A] @ join_nl ls"

section \<open>Input sanitizer (utils/validators.py)\<close>

datatype error = ValidationError string

text \<open>The text after the two substitutions of \<open>sanitize_symptom_input\<close>, before the
  length checks.\<close>

definition cleaned :: "string \<Rightarrow> string" where
  "cleaned symptom = filter is_kept (collapse_ws (strip symptom))"

definition sanitize_symptom_input :: "string \<Rightarrow> error + string" where
  "sanitize_symptom_input symptom =
     (let symptom = collapse_ws (strip symptom);
          symptom = filter is_kept symptom
      in if length symptom < 3
         then Inl (ValidationError ''Symptom description must be at least 3 characters'')
         else if length symptom > 500
         then Inl (ValidationError ''Symptom description must be less than 500 characters'')
         else Inr (lower symptom))"

section \<open>Red-flag matcher (core/symptoms.py)\<close>

text \<open>A detected red flag: the dictionary with the keys \<open>category\<close>, \<open>pattern\<close> and
  \<open>severity\<close> that \<open>_detect_red_flags\<close> appends.\<close>

record red_flag =
  category :: string
  pattern :: string
  severity :: string

text \<open>The dictionary \<open>red_flag_categories\<close>, in declaration order (the order in which
  Python iterates over it).\<close>

definition red_flag_categories :: "(string \<times> string list) list" where
  "red_flag_categories =
    [(''chest'', [''chest pain'', ''chest pressure'', ''chest tightness'', ''heart pain'']),
     (''breathing'', [''shortness of breath'', ''difficulty breathing'',
         ''can'' @ [CHR 0x27] @ ''t breathe'', ''trouble breathing'']),
     (''headache'', [''sudden severe headache'', ''worst headache'', ''severe headache'']),
     (''vision'', [''vision loss'', ''loss of vision'', ''sudden vision changes'', ''blind'',
         ''can'' @ [CHR 0x27] @ ''t see'']),
     (''weakness'', [''weakness on one side'', ''facial drooping'', ''speech problems'',
         ''slurred speech'']),
     (''consciousness'', [''loss of consciousness'', ''fainting'', ''passed out'',
         ''unconscious'']),
     (''blood'', [''blood in stool'', ''blood in urine'', ''coughing blood'', ''vomiting blood'']),
     (''fever'', [''high fever'', ''fever over 103'', ''burning up'']),
     (''allergic'', [''severe allergic reaction'', ''anaphylaxis'', ''swelling face'',
         ''difficulty swallowing''])]"

definition concerning_patterns :: "string list" where
  "concerning_patterns =
    [''severe pain'', ''extreme pain'', ''unbearable pain'',
     ''sudden onset'', ''came on suddenly'', ''started suddenly'',
     ''getting worse'', ''worsening'', ''worse than ever'']"

text \<open>The inner loop \<open>for pattern in patterns\<close>: every pattern is tested, and a hit is
  appended to the list built so far.\<close>

fun scan_patterns :: "string \<Rightarrow> string \<Rightarrow> string list \<Rightarrow> string \<Rightarrow> red_flag list \<Rightarrow> red_flag list" where
  "scan_patterns cat sev [] description_lower red_flags = red_flags"
| "scan_patterns cat sev (p # ps) description_lower red_flags =
     scan_patterns cat sev ps description_lower
       (if str_in p description_lower
        then red_flags @ [\<lparr>category = cat, pattern = p, severity = sev\<rparr>]
        else red_flags)"

text \<open>The outer loop \<open>for category, patterns in red_flag_categories.items()\<close>.\<close>

fun scan_categories :: "(string \<times> string list) list \<Rightarrow> string \<Rightarrow> red_flag list \<Rightarrow> red_flag list" where
  "scan_categories [] description_lower red_flags = red_flags"
| "scan_categories ((cat, ps) # rest) description_lower red_flags =
     scan_categories rest description_lower
       (scan_patterns cat ''high'' ps description_lower red_flags)"

definition detect_red_flags :: "string \<Rightarrow> red_flag list" where
  "detect_red_flags description =
     (let description_lower = lower description;
          red_flags = scan_categories red_flag_categories description_lower []
      in scan_patterns ''concerning'' ''medium'' concerning_patterns description_lower red_flags)"

section \<open>Urgency classifier\<close>

definition emergency_categories :: "string list" where
  "emergency_categories = [''chest'', ''breathing'', ''consciousness'', ''allergic'']"

definition urgent_categories :: "string list" where
  "urgent_categories = [''headache'', ''vision'', ''weakness'', ''blood'', ''fever'']"

text \<open>A loop \<open>for flag in red_flags: if flag["category"] in cats: return ...\<close>: whether it
  returns.\<close>

fun any_category_in :: "string list \<Rightarrow> red_flag list \<Rightarrow> bool" where
  "any_category_in cats [] = False"
| "any_category_in cats (flag # flags) =
     (if category flag \<in> set cats then True else any_category_in cats flags)"

definition assess_urgency :: "red_flag list \<Rightarrow> string" where
  "assess_urgency red_flags =
     (if red_flags = [] then ''low''
      else if any_category_in emergency_categories red_flags then ''emergency''
      else if any_category_in urgent_categories red_flags then ''urgent''
      else if length red_flags \<ge> 3 then ''urgent''
      else ''moderate'')"

section \<open>Response renderer\<close>

text \<open>The symbols of the fixed templates, as UTF-8 bytes: U+1F6A8; U+26A0 U+FE0F;
  U+2139 U+FE0F; U+2022; U+00B0; and the line feed.\<close>

definition siren :: string where
  "siren = [CHR 0xF0, CHR 0x9F, CHR 0x9A, CHR 0xA8]"

definition warning_sign :: string where
  "warning_sign = [CHR 0xE2, CHR 0x9A, CHR 0xA0, CHR 0xEF, CHR 0xB8, CHR 0x8F]"

definition info_sign :: string where
  "info_sign = [CHR 0xE2, CHR 0x84, CHR 0xB9, CHR 0xEF, CHR 0xB8, CHR 0x8F]"

definition bullet :: string where
  "bullet = [CHR 0xE2, CHR 0x80, CHR 0xA2]"

definition degree_sign :: string where
  "degree_sign = [CHR 0xC2, CHR 0xB0]"

definition nl :: string where
  "nl = [CHR 0x0A]"

text \<open>\<open>Config.MEDICAL_DISCLAIMER\<close> (utils/config.py).\<close>

definition MEDICAL_DISCLAIMER :: string where
  "MEDICAL_DISCLAIMER = warning_sign @ ''  IMPORTANT DISCLAIMER: This advice is for general wellness purposes only. It is not a substitute for professional medical advice, diagnosis, or treatment. Always consult with a qualified healthcare provider for medical concerns.''"

text \<open>The dictionary \<open>self.emergency_advice\<close> of \<open>SymptomDetector.__init__\<close>.\<close>

definition emergency_advice_items :: "(string \<times> string) list" where
  "emergency_advice_items =
    [(''chest'', siren @ '' URGENT: Chest pain can be a sign of a heart attack. Call emergency services (911) immediately.''),
     (''breathing'', siren @ '' URGENT: Difficulty breathing requires immediate medical attention. Call 911.''),
     (''headache'', siren @ '' URGENT: Sudden severe headache may indicate stroke or aneurysm. Seek emergency care.''),
     (''vision'', siren @ '' URGENT: Sudden vision loss requires immediate medical attention.''),
     (''weakness'', siren @ '' URGENT: Sudden weakness may indicate stroke. Call 911 immediately.''),
     (''consciousness'', siren @ '' URGENT: Loss of consciousness requires emergency medical care.''),
     (''blood'', warning_sign @ ''  Blood in stool, urine, or coughing blood requires immediate medical evaluation.''),
     (''fever'', warning_sign @ ''  High fever (over 103'' @ degree_sign @ ''F/39.4'' @ degree_sign @ ''C) requires medical attention.''),
     (''allergic'', siren @ '' URGENT: Severe allergic reactions can be life-threatening. Call 911.'')]"

definition emergency_advice :: "string \<rightharpoonup> string" where
  "emergency_advice = map_of emergency_advice_items"

text \<open>The loop with \<open>break\<close> of the emergency branch: the advice of the first flag whose
  category is a key of \<open>emergency_advice\<close>, if there is one.\<close>

fun specific_advice :: "red_flag list \<Rightarrow> string list" where
  "specific_advice [] = []"
| "specific_advice (flag # flags) =
     (case emergency_advice (category flag) of
        Some advice \<Rightarrow> [advice]
      | None \<Rightarrow> specific_advice flags)"

text \<open>The lines of \<open>_generate_response\<close>, block by block in the order the code appends
  them: the warning of the urgency level, the summary of the detected symptoms, the
  disclaimer, the general advice.\<close>

definition urgency_warning :: "string \<Rightarrow> red_flag list \<Rightarrow> string list" where
  "urgency_warning urgency red_flags =
     (if urgency = ''emergency'' then
        [siren @ '' MEDICAL EMERGENCY DETECTED '' @ siren,
         ''This appears to be a medical emergency. Call 911 or emergency services IMMEDIATELY.'']
        @ specific_advice red_flags
      else if urgency = ''urgent'' then
        [warning_sign @ ''  URGENT MEDICAL ATTENTION NEEDED'',
         ''These symptoms require prompt medical evaluation. Contact your doctor or visit urgent care immediately.'']
      else if urgency = ''moderate'' then
        [warning_sign @ ''  Medical Consultation Recommended'',
         ''Consider scheduling an appointment with your healthcare provider to discuss these symptoms.'']
      else
        [info_sign @ ''  General Wellness Information'',
         ''While these symptoms may not be immediately concerning, monitor them and consult a healthcare professional if they persist or worsen.''])"

definition symptoms_summary :: "red_flag list \<Rightarrow> string list" where
  "symptoms_summary red_flags =
     (if red_flags \<noteq> [] then
        (nl @ ''Detected concerning symptoms:'')
        # map (\<lambda>flag. bullet @ '' '' @ pattern flag) (take 3 red_flags)
      else [])"

definition self_care_tips :: "string list" where
  "self_care_tips =
    [nl @ ''General self-care tips:'',
     bullet @ '' Stay hydrated'',
     bullet @ '' Get adequate rest'',
     bullet @ '' Monitor symptoms'',
     bullet @ '' Keep a symptom diary'']"

definition general_advice :: "string \<Rightarrow> string list" where
  "general_advice urgency =
     (if urgency \<in> set [''low'', ''moderate''] then self_care_tips else [])"

definition response_lines :: "string \<Rightarrow> red_flag list \<Rightarrow> string \<Rightarrow> string list" where
  "response_lines description red_flags urgency =
     urgency_warning urgency red_flags
     @ symptoms_summary red_flags
     @ [nl @ MEDICAL_DISCLAIMER]
     @ general_advice urgency"

definition generate_response :: "string \<Rightarrow> red_flag list \<Rightarrow> string \<Rightarrow> string" where
  "generate_response description red_flags urgency =
     join_nl (response_lines description red_flags urgency)"

section \<open>The analysis entry point\<close>

text \<open>The dictionary returned on success (the key \<open>timestamp\<close>, the clock's value, is
  left out) and the one returned by the \<open>except\<close> branch.\<close>

record analysis =
  original_input :: string
  cleaned_input :: string
  red_flags :: "red_flag list"
  urgency_level :: string
  response :: string
  requires_medical_attention :: bool

datatype outcome =
  Analysed analysis
| Failed (error_text: string) (failure_response: string) (failure_requires_medical_attention: bool)

text \<open>The body of the \<open>try\<close> block.\<close>

definition analyze_body :: "string \<Rightarrow> error + analysis" where
  "analyze_body symptom_description =
     (case sanitize_symptom_input symptom_description of
        Inl e \<Rightarrow> Inl e
      | Inr clean_description \<Rightarrow>
          (let flags = detect_red_flags clean_description;
               urgency = assess_urgency flags;
               resp = generate_response clean_description flags urgency
           in Inr \<lparr>original_input = symptom_description,
                    cleaned_input = clean_description,
                    red_flags = flags,
                    urgency_level = urgency,
                    response = resp,
                    requires_medical_attention = (urgency \<in> set [''emergency'', ''urgent''])\<rparr>))"

text \<open>\<open>analyze_symptoms\<close>: the \<open>try\<close> block under \<open>except Exception as e\<close>. \<open>Inl\<close> would be
  an exception leaving the function.\<close>

definition analyze_symptoms :: "string \<Rightarrow> error + outcome" where
  "analyze_symptoms symptom_description =
     (case analyze_body symptom_description of
        Inr a \<Rightarrow> Inr (Analysed a)
      | Inl (ValidationError msg) \<Rightarrow>
          Inr (Failed (''Error analyzing symptoms: '' @ msg)
                 ''Unable to analyze symptoms. Please consult a healthcare professional.''
                 True))"

section \<open>Urgency classification\<close>

lemma any_category_in_iff:
  "any_category_in cats flags \<longleftrightarrow> (\<exists>flag \<in> set flags. category flag \<in> set cats)"
  by (induction flags) auto

lemma assess_urgency_tier:
  "assess_urgency flags \<in> {''low'', ''moderate'', ''urgent'', ''emergency''}"
  by (simp add: assess_urgency_def)

text \<open>
  C1. A list of matches that holds at least one match of an emergency-eligible category
  (chest, breathing, consciousness, allergic) is classified \<open>emergency\<close>, whatever the
  other matches of the list are and however many there are.
\<close>

theorem emergency_category_dominates:
  assumes "\<exists>flag \<in> set flags. category flag \<in> set emergency_categories"
  shows "assess_urgency flags = ''emergency''"
proof -
  from assms have "flags \<noteq> []" by auto
  moreover from assms have "any_category_in emergency_categories flags"
    by (simp add: any_category_in_iff)
  ultimately show ?thesis by (simp add: assess_urgency_def)
qed

text \<open>C1 at a list of five matches whose third one is of the category \<open>allergic\<close>.\<close>

theorem emergency_category_dominates_witness:
  "assess_urgency
     [\<lparr>category = ''headache'', pattern = ''severe headache'', severity = ''high''\<rparr>,
      \<lparr>category = ''vision'', pattern = ''blind'', severity = ''high''\<rparr>,
      \<lparr>category = ''allergic'', pattern = ''anaphylaxis'', severity = ''high''\<rparr>,
      \<lparr>category = ''concerning'', pattern = ''severe pain'', severity = ''medium''\<rparr>,
      \<lparr>category = ''concerning'', pattern = ''worsening'', severity = ''medium''\<rparr>]
   = ''emergency''"
  by (rule emergency_category_dominates) (simp add: emergency_categories_def)

text \<open>
  C2. A list of matches none of which is of an emergency-eligible or urgent-eligible
  category is classified \<open>urgent\<close> when it has three matches or more, \<open>moderate\<close> when
  it has one or two, and \<open>low\<close> when it is empty.
\<close>

theorem unnamed_categories_urgency:
  assumes "\<forall>flag \<in> set flags.
             category flag \<notin> set emergency_categories \<and> category flag \<notin> set urgent_categories"
  shows "assess_urgency flags =
           (if 3 \<le> length flags then ''urgent''
            else if 1 \<le> length flags then ''moderate''
            else ''low'')"
proof -
  from assms have "\<not> any_category_in emergency_categories flags"
    and "\<not> any_category_in urgent_categories flags"
    by (auto simp: any_category_in_iff)
  then show ?thesis
    by (cases flags) (simp_all add: assess_urgency_def)
qed

text \<open>C2 at the empty list and at lists of two and of three generic matches.\<close>

theorem unnamed_categories_urgency_witness:
  "assess_urgency [] = ''low''
   \<and> assess_urgency
        [\<lparr>category = ''concerning'', pattern = ''severe pain'', severity = ''medium''\<rparr>,
         \<lparr>category = ''concerning'', pattern = ''worsening'', severity = ''medium''\<rparr>] = ''moderate''
   \<and> assess_urgency
        [\<lparr>category = ''concerning'', pattern = ''severe pain'', severity = ''medium''\<rparr>,
         \<lparr>category = ''concerning'', pattern = ''sudden onset'', severity = ''medium''\<rparr>,
         \<lparr>category = ''concerning'', pattern = ''getting worse'', severity = ''medium''\<rparr>] = ''urgent''"
  using unnamed_categories_urgency [of "[]"]
    unnamed_categories_urgency [of
        "[\<lparr>category = ''concerning'', pattern = ''severe pain'', severity = ''medium''\<rparr>,
         \<lparr>category = ''concerning'', pattern = ''worsening'', severity = ''medium''\<rparr>]"]
    unnamed_categories_urgency [of
        "[\<lparr>category = ''concerning'', pattern = ''severe pain'', severity = ''medium''\<rparr>,
         \<lparr>category = ''concerning'', pattern = ''sudden onset'', severity = ''medium''\<rparr>,
         \<lparr>category = ''concerning'', pattern = ''getting worse'', severity = ''medium''\<rparr>]"]
  by (simp add: emergency_categories_def urgent_categories_def)

section \<open>The sanitizer's length bounds\<close>

lemma length_collapse_ws: "length (collapse_ws s) \<le> length s"
proof (induction s rule: collapse_ws.induct)
  case 1
  show ?case by simp
next
  case (2 c cs)
  have "length (dropWhile is_space cs) \<le> length cs" by (rule length_dropWhile_le)
  with 2 show ?case by (cases "is_space c") auto
qed

lemma length_strip: "length (strip s) \<le> length s"
proof -
  have "length (dropWhile is_space (rev (dropWhile is_space s))) \<le> length (rev (dropWhile is_space s))"
    by (rule length_dropWhile_le)
  also have "\<dots> \<le> length s" by (simp add: length_dropWhile_le)
  finally show ?thesis by (simp add: strip_def)
qed

lemma length_cleaned: "length (cleaned s) \<le> length s"
proof -
  have "length (cleaned s) \<le> length (collapse_ws (strip s))"
    by (simp add: cleaned_def)
  also have "\<dots> \<le> length (strip s)" by (rule length_collapse_ws)
  also have "\<dots> \<le> length s" by (rule length_strip)
  finally show ?thesis .
qed

lemma sanitize_cleaned:
  "sanitize_symptom_input x =
     (if length (cleaned x) < 3
      then Inl (ValidationError ''Symptom description must be at least 3 characters'')
      else if 500 < length (cleaned x)
      then Inl (ValidationError ''Symptom description must be less than 500 characters'')
      else Inr (lower (cleaned x)))"
  by (simp add: sanitize_symptom_input_def cleaned_def Let_def)

text \<open>
  C3, as the specification states it, says that every raw input of more than 500
  characters is rejected. The code measures the text after cleaning: a raw input of 501
  characters, \<open>abc\<close> followed by 498 spaces, is accepted and sanitized to \<open>abc\<close>.
\<close>

theorem long_raw_input_accepted:
  "500 < length (''abc'' @ replicate 498 (CHR '' ''))
   \<and> sanitize_symptom_input (''abc'' @ replicate 498 (CHR '' '')) = Inr ''abc''"
  by code_simp

text \<open>
  C3, amended. \<open>sanitize_symptom_input\<close> raises \<open>ValidationError\<close> exactly when the
  cleaned text (whitespace collapsed, characters stripped) has fewer than 3 or more than
  500 characters. The cleaned text is never longer than the raw input, so an input
  rejected as too long has more than 500 raw characters, but not every such input is
  rejected.
\<close>

theorem sanitize_rejects_iff:
  "((\<exists>e. sanitize_symptom_input x = Inl e) \<longleftrightarrow>
      (length (cleaned x) < 3 \<or> 500 < length (cleaned x)))
   \<and> length (cleaned x) \<le> length x"
  by (simp add: sanitize_cleaned length_cleaned)

text \<open>The amended C3 at the two-character input \<open>ok\<close>, which is rejected.\<close>

theorem sanitize_rejects_iff_witness:
  "\<exists>e. sanitize_symptom_input ''ok'' = Inl e"
proof -
  have "length (cleaned ''ok'') < 3" by code_simp
  with sanitize_rejects_iff [of "''ok''"] show ?thesis by blast
qed

section \<open>The shape of sanitized text\<close>

text \<open>What does hold of every sanitized text: each character is one the stripping step
  keeps, and none is an upper-case letter.\<close>

lemma lower_char_kept: "is_kept c \<Longrightarrow> is_kept (lower_char c) \<and> \<not> is_upper (lower_char c)"
  by (auto simp: is_kept_def is_word_def is_upper_def is_lower_def is_digit_def is_space_def
      lower_char_def Let_def)

lemma sanitize_output_chars:
  assumes "sanitize_symptom_input x = Inr y"
  shows "list_all (\<lambda>c. is_kept c \<and> \<not> is_upper c) y"
proof -
  from assms have y: "y = map lower_char (filter is_kept (collapse_ws (strip x)))"
    by (simp add: sanitize_symptom_input_def Let_def lower_def split: if_splits)
  show ?thesis unfolding y by (simp add: list_all_iff lower_char_kept)
qed

text \<open>
  C4 says that a sanitized text has no run of two whitespace characters and no leading
  or trailing whitespace. The code collapses and trims whitespace first and strips the
  other characters afterwards, so a stripped character that stood between two spaces, or
  between a space and an end of the text, leaves the spaces around it behind: a double
  space inside, a space at the start, a space at the end.
\<close>

theorem sanitize_leaves_extra_whitespace:
  "sanitize_symptom_input ''pain @ night'' = Inr ''pain  night''
   \<and> sanitize_symptom_input ''# sore throat'' = Inr '' sore throat''
   \<and> sanitize_symptom_input ''sore throat #'' = Inr ''sore throat ''"
  by code_simp

text \<open>
  C5 says that sanitizing a sanitized text gives the same text back. For the same reason
  as in C4 it does not: the second pass collapses the double space and trims the leading
  space that the first pass left, and it can even reject what the first pass returned.
\<close>

theorem sanitize_not_idempotent:
  "sanitize_symptom_input ''pain @ night'' = Inr ''pain  night''
   \<and> sanitize_symptom_input ''pain  night'' = Inr ''pain night''
   \<and> sanitize_symptom_input ''# flu'' = Inr '' flu''
   \<and> sanitize_symptom_input '' flu'' = Inr ''flu''
   \<and> sanitize_symptom_input ''# ok'' = Inr '' ok''
   \<and> sanitize_symptom_input '' ok'' =
         Inl (ValidationError ''Symptom description must be at least 3 characters'')"
  by code_simp

section \<open>The analysis entry point: failures and the attention flag\<close>

text \<open>
  C6, as the specification states it, says that the sanitizer's \<open>ValidationError\<close> leaves
  \<open>analyze_symptoms\<close>. The code catches it: on the two-character input \<open>ok\<close> the sanitizer
  raises, and the analysis returns the dictionary of its \<open>except\<close> branch.
\<close>

theorem short_input_caught:
  "sanitize_symptom_input ''ok'' =
     Inl (ValidationError ''Symptom description must be at least 3 characters'')
   \<and> analyze_symptoms ''ok'' =
     Inr (Failed ''Error analyzing symptoms: Symptom description must be at least 3 characters''
            ''Unable to analyze symptoms. Please consult a healthcare professional.'' True)"
  by code_simp

text \<open>
  C6, amended. \<open>analyze_symptoms\<close> never raises. Exactly when the cleaned text has fewer
  than 3 or more than 500 characters, the sanitizer's \<open>ValidationError\<close> is caught and the
  analysis returns an error result: the error's message after
  \<open>Error analyzing symptoms: \<close>, the fixed response that sends the user to a
  healthcare professional, and the attention flag set. Otherwise it returns a full
  analysis.
\<close>

theorem analyze_symptoms_never_raises:
  "(\<forall>e. analyze_symptoms d \<noteq> Inl e)
   \<and> ((\<exists>msg. sanitize_symptom_input d = Inl (ValidationError msg)
          \<and> analyze_symptoms d =
              Inr (Failed (''Error analyzing symptoms: '' @ msg)
                     ''Unable to analyze symptoms. Please consult a healthcare professional.''
                     True))
        \<longleftrightarrow> (length (cleaned d) < 3 \<or> 500 < length (cleaned d)))
   \<and> ((\<exists>a. analyze_symptoms d = Inr (Analysed a))
        \<longleftrightarrow> (3 \<le> length (cleaned d) \<and> length (cleaned d) \<le> 500))"
  by (auto simp: analyze_symptoms_def analyze_body_def sanitize_cleaned Let_def)

text \<open>The amended C6 at \<open>ok\<close> (an error result) and at \<open>sore throat\<close> (a full analysis).\<close>

theorem analyze_symptoms_never_raises_witness:
  "(\<exists>msg. analyze_symptoms ''ok'' =
       Inr (Failed (''Error analyzing symptoms: '' @ msg)
              ''Unable to analyze symptoms. Please consult a healthcare professional.'' True))
   \<and> (\<exists>a. analyze_symptoms ''sore throat'' = Inr (Analysed a))"
proof -
  have short: "length (cleaned ''ok'') < 3" by code_simp
  have fine: "3 \<le> length (cleaned ''sore throat'') \<and> length (cleaned ''sore throat'') \<le> 500"
    by code_simp
  from short analyze_symptoms_never_raises [of "''ok''"] fine
    analyze_symptoms_never_raises [of "''sore throat''"]
  show ?thesis by blast
qed

lemma analyze_high_fever:
  "analyze_symptoms ''I have a high fever'' =
     Inr (Analysed \<lparr>original_input = ''I have a high fever'',
            cleaned_input = ''i have a high fever'',
            red_flags = [\<lparr>category = ''fever'', pattern = ''high fever'', severity = ''high''\<rparr>],
            urgency_level = ''urgent'',
            response = generate_response ''i have a high fever''
              [\<lparr>category = ''fever'', pattern = ''high fever'', severity = ''high''\<rparr>] ''urgent'',
            requires_medical_attention = True\<rparr>)"
proof -
  have s: "sanitize_symptom_input ''I have a high fever'' = Inr ''i have a high fever''"
    by code_simp
  have f: "detect_red_flags ''i have a high fever'' =
      [\<lparr>category = ''fever'', pattern = ''high fever'', severity = ''high''\<rparr>]"
    by code_simp
  have u: "assess_urgency [\<lparr>category = ''fever'', pattern = ''high fever'', severity = ''high''\<rparr>]
      = ''urgent''"
    by code_simp
  show ?thesis
    by (simp add: analyze_symptoms_def analyze_body_def Let_def s f u)
qed

text \<open>
  C7. In every analysis that \<open>analyze_symptoms\<close> returns, the attention flag is set if
  and only if the urgency level is \<open>urgent\<close> or \<open>emergency\<close>, and it is clear if and only
  if the level is \<open>low\<close> or \<open>moderate\<close>.
\<close>

theorem attention_iff_urgent_or_emergency:
  assumes "analyze_symptoms d = Inr (Analysed a)"
  shows "(requires_medical_attention a \<longleftrightarrow> urgency_level a \<in> {''urgent'', ''emergency''})
       \<and> (\<not> requires_medical_attention a \<longleftrightarrow> urgency_level a \<in> {''low'', ''moderate''})"
proof -
  from assms obtain c where a: "a = \<lparr>original_input = d, cleaned_input = c,
      red_flags = detect_red_flags c, urgency_level = assess_urgency (detect_red_flags c),
      response = generate_response c (detect_red_flags c) (assess_urgency (detect_red_flags c)),
      requires_medical_attention =
        (assess_urgency (detect_red_flags c) \<in> set [''emergency'', ''urgent''])\<rparr>"
    by (auto simp: analyze_symptoms_def analyze_body_def Let_def
        split: sum.splits error.splits)
  have "assess_urgency (detect_red_flags c) \<in> {''low'', ''moderate'', ''urgent'', ''emergency''}"
    by (rule assess_urgency_tier)
  then show ?thesis unfolding a by auto
qed

text \<open>C7 at the input \<open>I have a high fever\<close>, whose analysis is \<open>urgent\<close>.\<close>

theorem attention_iff_urgent_or_emergency_witness:
  "requires_medical_attention
     \<lparr>original_input = ''I have a high fever'',
      cleaned_input = ''i have a high fever'',
      red_flags = [\<lparr>category = ''fever'', pattern = ''high fever'', severity = ''high''\<rparr>],
      urgency_level = ''urgent'',
      response = generate_response ''i have a high fever''
        [\<lparr>category = ''fever'', pattern = ''high fever'', severity = ''high''\<rparr>] ''urgent'',
      requires_medical_attention = True\<rparr>
   = (''urgent'' \<in> {''urgent'', ''emergency''})"
  using attention_iff_urgent_or_emergency [OF analyze_high_fever] by simp

section \<open>The mild-headache scenario\<close>

lemma analyze_mild_headache:
  "analyze_symptoms ''I have a mild headache'' =
     Inr (Analysed \<lparr>original_input = ''I have a mild headache'',
            cleaned_input = ''i have a mild headache'',
            red_flags = [],
            urgency_level = ''low'',
            response = generate_response ''i have a mild headache'' [] ''low'',
            requires_medical_attention = False\<rparr>)"
proof -
  have s: "sanitize_symptom_input ''I have a mild headache'' = Inr ''i have a mild headache''"
    by code_simp
  have f: "detect_red_flags ''i have a mild headache'' = []"
    by code_simp
  have u: "assess_urgency [] = ''low''"
    by code_simp
  show ?thesis
    by (simp add: analyze_symptoms_def analyze_body_def Let_def s f u)
qed

lemma no_phrase_in_mild_headache:
  "list_all (\<lambda>p. \<not> str_in p ''i have a mild headache'')
     (concat (map snd red_flag_categories) @ concerning_patterns)"
  by code_simp


text \<open>
  C8. For the input \<open>I have a mild headache\<close> the sanitized text is
  \<open>i have a mild headache\<close>; no phrase of the catalogue, \<open>severe headache\<close> and
  \<open>sudden severe headache\<close> included, is a substring of it; the analysis has no match and
  the urgency \<open>low\<close>.
\<close>

theorem mild_headache_is_low:
  "sanitize_symptom_input ''I have a mild headache'' = Inr ''i have a mild headache''
   \<and> \<not> str_in ''severe headache'' ''i have a mild headache''
   \<and> \<not> str_in ''sudden severe headache'' ''i have a mild headache''
   \<and> list_all (\<lambda>p. \<not> str_in p ''i have a mild headache'')
        (concat (map snd red_flag_categories) @ concerning_patterns)
   \<and> detect_red_flags ''i have a mild headache'' = []
   \<and> (\<exists>a. analyze_symptoms ''I have a mild headache'' = Inr (Analysed a)
         \<and> red_flags a = [] \<and> urgency_level a = ''low'')"
proof -
  have "sanitize_symptom_input ''I have a mild headache'' = Inr ''i have a mild headache''"
    by code_simp
  moreover have "\<not> str_in ''severe headache'' ''i have a mild headache''"
    by code_simp
  moreover have "\<not> str_in ''sudden severe headache'' ''i have a mild headache''"
    by code_simp
  moreover have "detect_red_flags ''i have a mild headache'' = []"
    by code_simp
  moreover have "\<exists>a. analyze_symptoms ''I have a mild headache'' = Inr (Analysed a)
         \<and> red_flags a = [] \<and> urgency_level a = ''low''"
    by (simp add: analyze_mild_headache)
  ultimately show ?thesis using no_phrase_in_mild_headache by blast
qed


section \<open>The rendered response\<close>

lemma str_in_iff_sublist: "str_in p s \<longleftrightarrow> sublist p s"
  by (induction s) (auto simp: sublist_Cons_right)

lemma join_nl_Cons: "ls \<noteq> [] \<Longrightarrow> join_nl (l # ls) = l @ nl @ join_nl ls"
  by (cases ls) (simp_all add: nl_def)

lemma join_nl_append:
  "xs \<noteq> [] \<Longrightarrow> ys \<noteq> [] \<Longrightarrow> join_nl (xs @ ys) = join_nl xs @ nl @ join_nl ys"
proof (induction xs rule: join_nl.induct)
  case 1
  then show ?case by simp
next
  case (2 l)
  then show ?case by (simp add: join_nl_Cons)
next
  case (3 l l' ls)
  then show ?case by (simp add: nl_def)
qed

lemma sublist_join_nl_mid:
  assumes "ys \<noteq> []"
  shows "sublist (join_nl ys) (join_nl (xs @ ys @ zs))"
proof -
  have a: "sublist (join_nl ys) (join_nl (ys @ zs))"
  proof (cases "zs = []")
    case True
    then show ?thesis by simp
  next
    case False
    with assms have "join_nl (ys @ zs) = join_nl ys @ nl @ join_nl zs"
      by (simp add: join_nl_append)
    then show ?thesis by (simp add: sublist_append_rightI)
  qed
  show ?thesis
  proof (cases "xs = []")
    case True
    with a show ?thesis by simp
  next
    case False
    moreover from assms have "ys @ zs \<noteq> []" by simp
    ultimately have "join_nl (xs @ ys @ zs) = join_nl xs @ nl @ join_nl (ys @ zs)"
      by (rule join_nl_append)
    moreover have "sublist (join_nl (ys @ zs)) (join_nl xs @ nl @ join_nl (ys @ zs))"
      by (metis append_assoc sublist_append_leftI)
    ultimately show ?thesis using a by (metis sublist_order.order_trans)
  qed
qed

lemma suffix_join_nl:
  assumes "ys \<noteq> []"
  shows "suffix (join_nl ys) (join_nl (xs @ ys))"
proof (cases "xs = []")
  case True
  then show ?thesis by simp
next
  case False
  with assms have "join_nl (xs @ ys) = join_nl xs @ nl @ join_nl ys"
    by (simp add: join_nl_append)
  then show ?thesis by (metis append_assoc suffix_appendI suffix_order.order_refl)
qed

lemma last_join_nl_snoc: "l \<noteq> [] \<Longrightarrow> last (join_nl (xs @ [l])) = last l"
proof (cases "xs = []")
  case True
  then show ?thesis by simp
next
  case False
  assume "l \<noteq> []"
  from False have "join_nl (xs @ [l]) = join_nl xs @ nl @ join_nl [l]"
    by (rule join_nl_append) simp
  with \<open>l \<noteq> []\<close> show ?thesis by simp
qed

lemma generate_response_description:
  "generate_response description flags urgency = generate_response [] flags urgency"
  by (simp add: generate_response_def response_lines_def)

lemma symptoms_summary_take: "symptoms_summary (take 3 flags) = symptoms_summary flags"
  by (cases flags) (simp_all add: symptoms_summary_def)

lemma urgency_warning_flags:
  "urgency \<noteq> ''emergency'' \<Longrightarrow> urgency_warning urgency flags = urgency_warning urgency []"
  by (simp add: urgency_warning_def)

lemma response_contains_disclaimer:
  "str_in MEDICAL_DISCLAIMER (generate_response description flags urgency)"
proof -
  let ?pre = "urgency_warning urgency flags @ symptoms_summary flags"
  have "sublist (join_nl [nl @ MEDICAL_DISCLAIMER])
          (join_nl (?pre @ [nl @ MEDICAL_DISCLAIMER] @ general_advice urgency))"
    by (rule sublist_join_nl_mid) simp
  moreover have "sublist MEDICAL_DISCLAIMER (join_nl [nl @ MEDICAL_DISCLAIMER])"
    by (simp add: sublist_append_leftI)
  ultimately have "sublist MEDICAL_DISCLAIMER
      (join_nl (?pre @ [nl @ MEDICAL_DISCLAIMER] @ general_advice urgency))"
    by (metis sublist_order.order_trans)
  then show ?thesis
    by (simp add: str_in_iff_sublist generate_response_def response_lines_def)
qed

lemma response_contains_summary:
  assumes "flags \<noteq> []"
  shows "str_in (join_nl (symptoms_summary flags)) (generate_response description flags urgency)"
proof -
  from assms have "symptoms_summary flags \<noteq> []" by (simp add: symptoms_summary_def)
  then have "sublist (join_nl (symptoms_summary flags))
      (join_nl (urgency_warning urgency flags @ symptoms_summary flags
         @ ([nl @ MEDICAL_DISCLAIMER] @ general_advice urgency)))"
    by (rule sublist_join_nl_mid)
  then show ?thesis
    by (simp add: str_in_iff_sublist generate_response_def response_lines_def)
qed

lemma no_summary_emergency:
  "\<not> str_in ''Detected concerning symptoms:'' (generate_response [] [] ''emergency'')"
  by code_simp

lemma no_summary_urgent:
  "\<not> str_in ''Detected concerning symptoms:'' (generate_response [] [] ''urgent'')"
  by code_simp

lemma no_summary_moderate:
  "\<not> str_in ''Detected concerning symptoms:'' (generate_response [] [] ''moderate'')"
  by code_simp

lemma no_summary_low:
  "\<not> str_in ''Detected concerning symptoms:'' (generate_response [] [] ''low'')"
  by code_simp

lemma no_summary_other:
  "\<not> str_in ''Detected concerning symptoms:'' (generate_response [] [] [])"
  by code_simp

lemma generate_response_other:
  assumes "urgency \<noteq> ''emergency''" "urgency \<noteq> ''urgent''" "urgency \<noteq> ''moderate''"
    "urgency \<noteq> ''low''"
  shows "generate_response [] [] urgency = generate_response [] [] []"
  using assms
  by (simp add: generate_response_def response_lines_def urgency_warning_def general_advice_def)

lemma response_without_summary:
  "\<not> str_in ''Detected concerning symptoms:'' (generate_response description [] urgency)"
proof -
  consider "urgency = ''emergency''" | "urgency = ''urgent''" | "urgency = ''moderate''"
    | "urgency = ''low''"
    | "urgency \<noteq> ''emergency''" "urgency \<noteq> ''urgent''" "urgency \<noteq> ''moderate''"
      "urgency \<noteq> ''low''"
    by blast
  then have "\<not> str_in ''Detected concerning symptoms:'' (generate_response [] [] urgency)"
  proof cases
    case 1 then show ?thesis by (simp only: no_summary_emergency not_False_eq_True)
  next
    case 2 then show ?thesis by (simp only: no_summary_urgent not_False_eq_True)
  next
    case 3 then show ?thesis by (simp only: no_summary_moderate not_False_eq_True)
  next
    case 4 then show ?thesis by (simp only: no_summary_low not_False_eq_True)
  next
    case 5 then show ?thesis
      by (simp only: generate_response_other no_summary_other not_False_eq_True)
  qed
  then show ?thesis by (subst generate_response_description)
qed

lemma response_first_three:
  assumes "urgency \<noteq> ''emergency''"
  shows "generate_response description (take 3 flags) urgency
       = generate_response description flags urgency"
  using assms
  by (simp add: generate_response_def response_lines_def symptoms_summary_take
      urgency_warning_flags [of urgency flags] urgency_warning_flags [of urgency "take 3 flags"])

lemma last_tips: "last (join_nl self_care_tips) = CHR ''y''"
  by code_simp

lemma tips_nonempty: "join_nl self_care_tips \<noteq> []"
  by code_simp

lemma last_disclaimer: "last (nl @ MEDICAL_DISCLAIMER) = CHR ''.''"
  by code_simp

lemma disclaimer_nonempty: "nl @ MEDICAL_DISCLAIMER \<noteq> []"
  by (simp add: nl_def)

lemma suffix_last: "suffix a b \<Longrightarrow> a \<noteq> [] \<Longrightarrow> last b = last a"
  by (auto simp: suffix_def)

lemma response_ends_with_tips:
  "suffix (join_nl self_care_tips) (generate_response description flags urgency)
     \<longleftrightarrow> urgency \<in> {''low'', ''moderate''}"
proof (cases "urgency \<in> {''low'', ''moderate''}")
  case True
  have "self_care_tips \<noteq> []" by (simp add: self_care_tips_def)
  then have "suffix (join_nl self_care_tips)
      (join_nl ((urgency_warning urgency flags @ symptoms_summary flags
         @ [nl @ MEDICAL_DISCLAIMER]) @ self_care_tips))"
    by (rule suffix_join_nl)
  with True show ?thesis
    by (simp add: generate_response_def response_lines_def general_advice_def)
next
  case False
  have "last (join_nl ((urgency_warning urgency flags @ symptoms_summary flags)
          @ [nl @ MEDICAL_DISCLAIMER])) = last (nl @ MEDICAL_DISCLAIMER)"
    by (rule last_join_nl_snoc) (rule disclaimer_nonempty)
  with False have l: "last (generate_response description flags urgency) = CHR ''.''"
    by (simp add: generate_response_def response_lines_def general_advice_def last_disclaimer)
  have "\<not> suffix (join_nl self_care_tips) (generate_response description flags urgency)"
  proof
    assume "suffix (join_nl self_care_tips) (generate_response description flags urgency)"
    then have "last (generate_response description flags urgency) = last (join_nl self_care_tips)"
      using tips_nonempty by (rule suffix_last)
    with l show False by (simp add: last_tips)
  qed
  with False show ?thesis by simp
qed

lemma suffix_str_in: "suffix a b \<Longrightarrow> str_in a b"
  by (auto simp: str_in_iff_sublist suffix_def sublist_append_leftI)


lemma sublist_skip_separator:
  assumes "sublist w (a @ c # b)" and "c \<notin> set w"
  shows "sublist w a \<or> sublist w b"
proof -
  from assms(1) consider "sublist w a" | "sublist w (c # b)"
    | xs1 xs2 where "w = xs1 @ xs2" "suffix xs1 a" "prefix xs2 (c # b)"
    by (auto simp: sublist_append)
  then show ?thesis
  proof cases
    case 1
    then show ?thesis by simp
  next
    case 2
    then have "prefix w (c # b) \<or> sublist w b" by (simp add: sublist_Cons_right)
    moreover have "\<not> prefix w (c # b) \<or> w = []"
      using assms(2) by (cases w) auto
    ultimately show ?thesis by auto
  next
    case 3
    show ?thesis
    proof (cases xs2)
      case Nil
      with 3 have "suffix w a" by simp
      then show ?thesis by (auto simp: suffix_def sublist_append_leftI)
    next
      case (Cons x xs)
      with 3 have "x = c" by simp
      with 3 Cons have "c \<in> set w" by simp
      with assms(2) show ?thesis by simp
    qed
  qed
qed

lemma sublist_skip_prefix:
  assumes "sublist (x # w) (a @ b)" and "x \<notin> set a"
  shows "sublist (x # w) b"
proof -
  from assms(1) consider "sublist (x # w) a" | "sublist (x # w) b"
    | xs1 xs2 where "x # w = xs1 @ xs2" "suffix xs1 a" "prefix xs2 b"
    by (auto simp: sublist_append)
  then show ?thesis
  proof cases
    case 1
    then have "x \<in> set a" using set_mono_sublist by fastforce
    with assms(2) show ?thesis by simp
  next
    case 2
    then show ?thesis .
  next
    case 3
    show ?thesis
    proof (cases xs1)
      case Nil
      with 3 have "prefix (x # w) b" by simp
      then show ?thesis by (auto simp: prefix_def sublist_append_rightI)
    next
      case (Cons y ys)
      with 3 have "y = x" by simp
      with Cons have "x \<in> set xs1" by simp
      with 3(2) have "x \<in> set a" using set_mono_suffix by fastforce
      with assms(2) show ?thesis by simp
    qed
  qed
qed

lemma str_in_join_nl_line:
  assumes "str_in w (join_nl ls)" and "CHR 0x0A \<notin> set w" and "w \<noteq> []"
  shows "\<exists>l \<in> set ls. str_in w l"
  using assms(1)
proof (induction ls rule: join_nl.induct)
  case 1
  with assms(3) show ?case by simp
next
  case (2 l)
  then show ?case by simp
next
  case (3 l l' ls)
  then have "sublist w (l @ CHR 0x0A # join_nl (l' # ls))"
    by (simp add: str_in_iff_sublist)
  then have "sublist w l \<or> sublist w (join_nl (l' # ls))"
    using assms(2) by (rule sublist_skip_separator)
  with 3 show ?case by (auto simp: str_in_iff_sublist)
qed


lemma specific_advice_values:
  "l \<in> set (specific_advice flags) \<Longrightarrow> l \<in> set (map snd emergency_advice_items)"
proof (induction flags)
  case Nil
  then show ?case by simp
next
  case (Cons flag flags)
  show ?case
  proof (cases "emergency_advice (category flag)")
    case None
    with Cons show ?thesis by simp
  next
    case (Some advice)
    then have "(category flag, advice) \<in> set emergency_advice_items"
      by (simp add: emergency_advice_def map_of_SomeD)
    with Cons.prems Some show ?thesis by force
  qed
qed

lemma fixed_lines_without_tips_heading:
  "list_all (\<lambda>l. \<not> str_in ''General self-care tips:'' l)
     (urgency_warning ''emergency'' [] @ urgency_warning ''urgent'' []
      @ urgency_warning ''moderate'' [] @ urgency_warning ''low'' []
      @ map snd emergency_advice_items
      @ [nl @ ''Detected concerning symptoms:'', nl @ MEDICAL_DISCLAIMER])"
  by code_simp

lemma urgency_warning_lines:
  "set (urgency_warning urgency flags) \<subseteq>
     set (urgency_warning ''emergency'' [] @ urgency_warning ''urgent'' []
      @ urgency_warning ''moderate'' [] @ urgency_warning ''low'' []
      @ map snd emergency_advice_items)"
proof
  fix l assume l: "l \<in> set (urgency_warning urgency flags)"
  show "l \<in> set (urgency_warning ''emergency'' [] @ urgency_warning ''urgent'' []
      @ urgency_warning ''moderate'' [] @ urgency_warning ''low'' []
      @ map snd emergency_advice_items)"
  proof (cases "urgency = ''emergency''")
    case True
    with l have "l \<in> set (urgency_warning ''emergency'' []) \<or> l \<in> set (specific_advice flags)"
      by (auto simp: urgency_warning_def)
    then show ?thesis using specific_advice_values [of l flags] by auto
  next
    case False
    then have "urgency_warning urgency flags = urgency_warning ''urgent'' []
       \<or> urgency_warning urgency flags = urgency_warning ''moderate'' []
       \<or> urgency_warning urgency flags = urgency_warning ''low'' []"
      by (simp add: urgency_warning_def)
    with l show ?thesis by auto
  qed
qed

lemma bullet_line_without_tips_heading:
  assumes "str_in ''General self-care tips:'' (bullet @ '' '' @ p)"
  shows "str_in ''General self-care tips:'' p"
proof -
  have "sublist (CHR ''G'' # ''eneral self-care tips:'') ((bullet @ '' '') @ p)"
    using assms by (simp add: str_in_iff_sublist)
  moreover have "CHR ''G'' \<notin> set (bullet @ '' '')"
    by (simp add: bullet_def)
  ultimately have "sublist (CHR ''G'' # ''eneral self-care tips:'') p"
    by (rule sublist_skip_prefix)
  then show ?thesis by (simp add: str_in_iff_sublist)
qed

lemma lines_without_tips_heading:
  assumes "urgency \<notin> {''low'', ''moderate''}"
    and "\<forall>flag \<in> set flags. \<not> str_in ''General self-care tips:'' (pattern flag)"
    and "l \<in> set (response_lines description flags urgency)"
  shows "\<not> str_in ''General self-care tips:'' l"
proof -
  from assms(1,3) consider "l \<in> set (urgency_warning urgency flags)"
    | "l = nl @ ''Detected concerning symptoms:''"
    | flag where "flag \<in> set (take 3 flags)" "l = bullet @ '' '' @ pattern flag"
    | "l = nl @ MEDICAL_DISCLAIMER"
    by (auto simp: response_lines_def general_advice_def symptoms_summary_def split: if_splits)
  then show ?thesis
  proof cases
    case 1
    with urgency_warning_lines [of urgency flags]
    have "l \<in> set (urgency_warning ''emergency'' [] @ urgency_warning ''urgent'' []
      @ urgency_warning ''moderate'' [] @ urgency_warning ''low'' []
      @ map snd emergency_advice_items
      @ [nl @ ''Detected concerning symptoms:'', nl @ MEDICAL_DISCLAIMER])"
      by auto
    with fixed_lines_without_tips_heading show ?thesis
      unfolding list_all_iff by blast
  next
    case 2
    with fixed_lines_without_tips_heading show ?thesis by (simp add: list_all_iff)
  next
    case 3
    then have "flag \<in> set flags" by (auto dest: in_set_takeD)
    with assms(2) have "\<not> str_in ''General self-care tips:'' (pattern flag)" by simp
    with 3 bullet_line_without_tips_heading show ?thesis by blast
  next
    case 4
    with fixed_lines_without_tips_heading show ?thesis by (simp add: list_all_iff)
  qed
qed

lemma tips_contain_heading: "str_in ''General self-care tips:'' (join_nl self_care_tips)"
  by code_simp

lemma heading_without_newline:
  "CHR 0x0A \<notin> set ''General self-care tips:'' \<and> ''General self-care tips:'' \<noteq> []"
  by code_simp

lemma response_without_tips:
  assumes "urgency \<notin> {''low'', ''moderate''}"
    and "\<forall>flag \<in> set flags. \<not> str_in ''General self-care tips:'' (pattern flag)"
  shows "\<not> str_in (join_nl self_care_tips) (generate_response description flags urgency)"
proof
  assume "str_in (join_nl self_care_tips) (generate_response description flags urgency)"
  then have "sublist (join_nl self_care_tips) (generate_response description flags urgency)"
    by (simp only: str_in_iff_sublist)
  moreover have "sublist ''General self-care tips:'' (join_nl self_care_tips)"
    using tips_contain_heading by (simp only: str_in_iff_sublist)
  ultimately have "sublist ''General self-care tips:''
      (generate_response description flags urgency)"
    by (rule sublist_order.order_trans [rotated])
  then have "str_in ''General self-care tips:''
      (join_nl (response_lines description flags urgency))"
    by (simp only: str_in_iff_sublist generate_response_def)
  then obtain l where "l \<in> set (response_lines description flags urgency)"
    and "str_in ''General self-care tips:'' l"
    using heading_without_newline str_in_join_nl_line by blast
  with lines_without_tips_heading [OF assms] show False by blast
qed

lemma scan_patterns_set:
  "set (map pattern (scan_patterns cat sev ps d acc)) \<subseteq> set (map pattern acc) \<union> set ps"
proof (induction ps arbitrary: acc)
  case Nil
  show ?case by simp
next
  case (Cons p ps)
  let ?acc = "if str_in p d then acc @ [\<lparr>category = cat, pattern = p, severity = sev\<rparr>]
              else acc"
  have "set (map pattern (scan_patterns cat sev ps d ?acc)) \<subseteq> set (map pattern ?acc) \<union> set ps"
    by (rule Cons.IH)
  moreover have "set (map pattern ?acc) \<subseteq> set (map pattern acc) \<union> {p}"
    by auto
  ultimately have "set (map pattern (scan_patterns cat sev ps d ?acc))
      \<subseteq> set (map pattern acc) \<union> insert p (set ps)"
    by blast
  then show ?case by simp
qed

lemma scan_categories_set:
  "set (map pattern (scan_categories cs d acc)) \<subseteq> set (map pattern acc) \<union> set (concat (map snd cs))"
proof (induction cs arbitrary: acc)
  case Nil
  then show ?case by simp
next
  case (Cons c cs)
  obtain cat ps where c: "c = (cat, ps)" by (cases c)
  have "set (map pattern (scan_categories (c # cs) d acc))
      \<subseteq> set (map pattern (scan_patterns cat ''high'' ps d acc)) \<union> set (concat (map snd cs))"
    unfolding c using Cons.IH by simp
  also have "\<dots> \<subseteq> (set (map pattern acc) \<union> set ps) \<union> set (concat (map snd cs))"
    using scan_patterns_set [of cat "''high''" ps d acc] by blast
  finally show ?case unfolding c by auto
qed

lemma detect_red_flags_patterns:
  "set (map pattern (detect_red_flags d))
     \<subseteq> set (concat (map snd red_flag_categories) @ concerning_patterns)"
proof -
  let ?flags = "scan_categories red_flag_categories (lower d) []"
  have "set (map pattern (detect_red_flags d))
      \<subseteq> set (map pattern ?flags) \<union> set concerning_patterns"
    unfolding detect_red_flags_def Let_def by (rule scan_patterns_set)
  moreover have "set (map pattern ?flags) \<subseteq> set (concat (map snd red_flag_categories))"
    using scan_categories_set [of red_flag_categories "lower d" "[]"] by simp
  ultimately show ?thesis by auto
qed

lemma catalogue_without_tips_heading:
  "list_all (\<lambda>p. \<not> str_in ''General self-care tips:'' p)
     (concat (map snd red_flag_categories) @ concerning_patterns)"
  by code_simp

lemma detected_without_tips_heading:
  "\<forall>flag \<in> set (detect_red_flags d). \<not> str_in ''General self-care tips:'' (pattern flag)"
proof
  fix flag assume "flag \<in> set (detect_red_flags d)"
  then have "pattern flag \<in> set (map pattern (detect_red_flags d))" by simp
  with detect_red_flags_patterns
  have "pattern flag \<in> set (concat (map snd red_flag_categories) @ concerning_patterns)"
    by blast
  with catalogue_without_tips_heading
  show "\<not> str_in ''General self-care tips:'' (pattern flag)"
    unfolding list_all_iff by blast
qed

lemma response_tips_iff:
  assumes "\<forall>flag \<in> set flags. \<not> str_in ''General self-care tips:'' (pattern flag)"
  shows "str_in (join_nl self_care_tips) (generate_response description flags urgency)
     \<longleftrightarrow> urgency \<in> {''low'', ''moderate''}"
proof (cases "urgency \<in> {''low'', ''moderate''}")
  case True
  then have "suffix (join_nl self_care_tips) (generate_response description flags urgency)"
    by (simp only: response_ends_with_tips)
  then have "str_in (join_nl self_care_tips) (generate_response description flags urgency)"
    by (rule suffix_str_in)
  with True show ?thesis by simp
next
  case False
  then have "\<not> str_in (join_nl self_care_tips) (generate_response description flags urgency)"
    using assms by (rule response_without_tips)
  with False show ?thesis by simp
qed

text \<open>Every analysis that \<open>analyze_symptoms\<close> returns renders the matches of the catalogue,
  so its response contains the list of self-care tips exactly when its urgency is \<open>low\<close> or
  \<open>moderate\<close>.\<close>

lemma analysis_response_tips:
  assumes "analyze_symptoms d = Inr (Analysed a)"
  shows "str_in (join_nl self_care_tips) (response a)
     \<longleftrightarrow> urgency_level a \<in> {''low'', ''moderate''}"
proof -
  from assms obtain c where a: "a = \<lparr>original_input = d, cleaned_input = c,
      red_flags = detect_red_flags c, urgency_level = assess_urgency (detect_red_flags c),
      response = generate_response c (detect_red_flags c) (assess_urgency (detect_red_flags c)),
      requires_medical_attention =
        (assess_urgency (detect_red_flags c) \<in> set [''emergency'', ''urgent''])\<rparr>"
    by (auto simp: analyze_symptoms_def analyze_body_def Let_def
        split: sum.splits error.splits)
  have "str_in (join_nl self_care_tips)
      (generate_response c (detect_red_flags c) (assess_urgency (detect_red_flags c)))
     \<longleftrightarrow> assess_urgency (detect_red_flags c) \<in> {''low'', ''moderate''}"
    using detected_without_tips_heading by (rule response_tips_iff)
  then show ?thesis unfolding a by simp
qed

text \<open>
  C9. For every description, list of matches and urgency, the rendered response contains
  the medical disclaimer verbatim. When the list of matches is not empty the response
  contains the block of detected symptoms, its heading followed by one line for each of
  the first three matches at most, in the order of the matches; when the list is empty the
  heading does not occur, and unless the urgency is \<open>emergency\<close> the matches after the third
  do not change the response. The response ends with the list of self-care tips if and
  only if the urgency is \<open>low\<close> or \<open>moderate\<close>; and, as long as no matched phrase itself
  holds the heading of that list (no phrase of the catalogue does), the response contains
  the list if and only if the urgency is \<open>low\<close> or \<open>moderate\<close>.
\<close>

theorem response_contents:
  "str_in MEDICAL_DISCLAIMER (generate_response description flags urgency)
   \<and> (flags \<noteq> [] \<longrightarrow>
        str_in (join_nl ((nl @ ''Detected concerning symptoms:'')
                  # map (\<lambda>flag. bullet @ '' '' @ pattern flag) (take 3 flags)))
          (generate_response description flags urgency))
   \<and> (flags = [] \<longrightarrow>
        \<not> str_in ''Detected concerning symptoms:'' (generate_response description flags urgency))
   \<and> (urgency \<noteq> ''emergency'' \<longrightarrow>
        generate_response description (take 3 flags) urgency
          = generate_response description flags urgency)
   \<and> (urgency \<in> {''low'', ''moderate''} \<longrightarrow>
        str_in (join_nl self_care_tips) (generate_response description flags urgency))
   \<and> (suffix (join_nl self_care_tips) (generate_response description flags urgency)
        \<longleftrightarrow> urgency \<in> {''low'', ''moderate''})
   \<and> ((\<forall>flag \<in> set flags. \<not> str_in ''General self-care tips:'' (pattern flag)) \<longrightarrow>
        (str_in (join_nl self_care_tips) (generate_response description flags urgency)
          \<longleftrightarrow> urgency \<in> {''low'', ''moderate''}))"
proof -
  have summary: "flags \<noteq> [] \<longrightarrow>
        str_in (join_nl ((nl @ ''Detected concerning symptoms:'')
                  # map (\<lambda>flag. bullet @ '' '' @ pattern flag) (take 3 flags)))
          (generate_response description flags urgency)"
    using response_contains_summary [of flags description urgency]
    by (simp add: symptoms_summary_def)
  have none: "flags = [] \<longrightarrow>
        \<not> str_in ''Detected concerning symptoms:'' (generate_response description flags urgency)"
    using response_without_summary by simp
  have tips: "urgency \<in> {''low'', ''moderate''} \<longrightarrow>
        str_in (join_nl self_care_tips) (generate_response description flags urgency)"
    using response_ends_with_tips [of description flags urgency] suffix_str_in by blast
  have literal: "(\<forall>flag \<in> set flags. \<not> str_in ''General self-care tips:'' (pattern flag)) \<longrightarrow>
        (str_in (join_nl self_care_tips) (generate_response description flags urgency)
          \<longleftrightarrow> urgency \<in> {''low'', ''moderate''})"
    using response_tips_iff [of flags description urgency] by blast
  have "str_in MEDICAL_DISCLAIMER (generate_response description flags urgency)"
    by (rule response_contains_disclaimer)
  moreover have "urgency \<noteq> ''emergency'' \<longrightarrow>
        generate_response description (take 3 flags) urgency
          = generate_response description flags urgency"
    by (simp add: response_first_three)
  moreover have "suffix (join_nl self_care_tips) (generate_response description flags urgency)
        \<longleftrightarrow> urgency \<in> {''low'', ''moderate''}"
    by (rule response_ends_with_tips)
  ultimately show ?thesis using summary none tips literal by blast
qed

lemma generic_patterns_without_tips_heading:
  "\<not> str_in ''General self-care tips:'' ''severe pain''
   \<and> \<not> str_in ''General self-care tips:'' ''sudden onset''
   \<and> \<not> str_in ''General self-care tips:'' ''getting worse''
   \<and> \<not> str_in ''General self-care tips:'' ''worsening''"
  by code_simp

text \<open>C9 at four generic matches rendered as \<open>urgent\<close>, and at no match rendered as
  \<open>low\<close>.\<close>

theorem response_contents_witness:
  "str_in (join_nl [nl @ ''Detected concerning symptoms:'', bullet @ '' severe pain'',
             bullet @ '' sudden onset'', bullet @ '' getting worse''])
     (generate_response ''severe pain, sudden onset, getting worse, worsening''
        [\<lparr>category = ''concerning'', pattern = ''severe pain'', severity = ''medium''\<rparr>,
         \<lparr>category = ''concerning'', pattern = ''sudden onset'', severity = ''medium''\<rparr>,
         \<lparr>category = ''concerning'', pattern = ''getting worse'', severity = ''medium''\<rparr>,
         \<lparr>category = ''concerning'', pattern = ''worsening'', severity = ''medium''\<rparr>]
        ''urgent'')
   \<and> \<not> suffix (join_nl self_care_tips)
     (generate_response ''severe pain, sudden onset, getting worse, worsening''
        [\<lparr>category = ''concerning'', pattern = ''severe pain'', severity = ''medium''\<rparr>,
         \<lparr>category = ''concerning'', pattern = ''sudden onset'', severity = ''medium''\<rparr>,
         \<lparr>category = ''concerning'', pattern = ''getting worse'', severity = ''medium''\<rparr>,
         \<lparr>category = ''concerning'', pattern = ''worsening'', severity = ''medium''\<rparr>]
        ''urgent'')
   \<and> \<not> str_in (join_nl self_care_tips)
     (generate_response ''severe pain, sudden onset, getting worse, worsening''
        [\<lparr>category = ''concerning'', pattern = ''severe pain'', severity = ''medium''\<rparr>,
         \<lparr>category = ''concerning'', pattern = ''sudden onset'', severity = ''medium''\<rparr>,
         \<lparr>category = ''concerning'', pattern = ''getting worse'', severity = ''medium''\<rparr>,
         \<lparr>category = ''concerning'', pattern = ''worsening'', severity = ''medium''\<rparr>]
        ''urgent'')
   \<and> \<not> str_in ''Detected concerning symptoms:'' (generate_response ''sore throat'' [] ''low'')
   \<and> str_in (join_nl self_care_tips) (generate_response ''sore throat'' [] ''low'')
   \<and> str_in MEDICAL_DISCLAIMER (generate_response ''sore throat'' [] ''low'')"
  using response_contents [of "''severe pain, sudden onset, getting worse, worsening''"
        "[\<lparr>category = ''concerning'', pattern = ''severe pain'', severity = ''medium''\<rparr>,
         \<lparr>category = ''concerning'', pattern = ''sudden onset'', severity = ''medium''\<rparr>,
         \<lparr>category = ''concerning'', pattern = ''getting worse'', severity = ''medium''\<rparr>,
         \<lparr>category = ''concerning'', pattern = ''worsening'', severity = ''medium''\<rparr>]"
        "''urgent''"]
    response_contents [of "''sore throat''" "[]" "''low''"]
  by (simp add: generic_patterns_without_tips_heading)


section \<open>The advice of the emergency response\<close>

lemma analyze_headache_fainting:
  "analyze_symptoms ''severe headache and fainting'' =
     Inr (Analysed \<lparr>original_input = ''severe headache and fainting'',
            cleaned_input = ''severe headache and fainting'',
            red_flags =
              [\<lparr>category = ''headache'', pattern = ''severe headache'', severity = ''high''\<rparr>,
               \<lparr>category = ''consciousness'', pattern = ''fainting'', severity = ''high''\<rparr>],
            urgency_level = ''emergency'',
            response = generate_response ''severe headache and fainting''
              [\<lparr>category = ''headache'', pattern = ''severe headache'', severity = ''high''\<rparr>,
               \<lparr>category = ''consciousness'', pattern = ''fainting'', severity = ''high''\<rparr>]
              ''emergency'',
            requires_medical_attention = True\<rparr>)"
proof -
  have s: "sanitize_symptom_input ''severe headache and fainting'' =
      Inr ''severe headache and fainting''"
    by code_simp
  have f: "detect_red_flags ''severe headache and fainting'' =
      [\<lparr>category = ''headache'', pattern = ''severe headache'', severity = ''high''\<rparr>,
       \<lparr>category = ''consciousness'', pattern = ''fainting'', severity = ''high''\<rparr>]"
    by code_simp
  have u: "assess_urgency
      [\<lparr>category = ''headache'', pattern = ''severe headache'', severity = ''high''\<rparr>,
       \<lparr>category = ''consciousness'', pattern = ''fainting'', severity = ''high''\<rparr>]
      = ''emergency''"
    by code_simp
  show ?thesis
    by (simp add: analyze_symptoms_def analyze_body_def Let_def s f u)
qed

lemma dom_emergency_advice:
  "dom emergency_advice = set emergency_categories \<union> set urgent_categories"
  by (auto simp: emergency_advice_def emergency_advice_items_def dom_map_of_conv_image_fst
      emergency_categories_def urgent_categories_def)

lemma headache_advice_rendered:
  "specific_advice
      [\<lparr>category = ''headache'', pattern = ''severe headache'', severity = ''high''\<rparr>,
       \<lparr>category = ''consciousness'', pattern = ''fainting'', severity = ''high''\<rparr>]
     = [siren @ '' URGENT: Sudden severe headache may indicate stroke or aneurysm. Seek emergency care.'']
   \<and> emergency_advice ''headache'' =
       Some (siren @ '' URGENT: Sudden severe headache may indicate stroke or aneurysm. Seek emergency care.'')
   \<and> emergency_advice ''consciousness'' =
       Some (siren @ '' URGENT: Loss of consciousness requires emergency medical care.'')
   \<and> str_in (siren @ '' URGENT: Sudden severe headache may indicate stroke or aneurysm. Seek emergency care.'')
       (generate_response ''severe headache and fainting''
          [\<lparr>category = ''headache'', pattern = ''severe headache'', severity = ''high''\<rparr>,
           \<lparr>category = ''consciousness'', pattern = ''fainting'', severity = ''high''\<rparr>]
          ''emergency'')
   \<and> \<not> str_in (siren @ '' URGENT: Loss of consciousness requires emergency medical care.'')
       (generate_response ''severe headache and fainting''
          [\<lparr>category = ''headache'', pattern = ''severe headache'', severity = ''high''\<rparr>,
           \<lparr>category = ''consciousness'', pattern = ''fainting'', severity = ''high''\<rparr>]
          ''emergency'')"
  by code_simp


text \<open>
  C10. The map \<open>emergency_advice\<close> has an entry for each of the nine named categories, the
  five urgent-eligible ones as well as the four emergency-eligible ones. The input
  \<open>severe headache and fainting\<close> matches \<open>severe headache\<close> (category \<open>headache\<close>,
  urgent-eligible, scanned first) and \<open>fainting\<close> (category \<open>consciousness\<close>,
  emergency-eligible); it is classified \<open>emergency\<close> because of the second match, and the
  advice appended to its response is the one of \<open>headache\<close>, not the one of
  \<open>consciousness\<close>.
\<close>

theorem emergency_advice_of_urgent_category:
  "dom emergency_advice = set emergency_categories \<union> set urgent_categories
   \<and> length emergency_advice_items = 9
   \<and> ''headache'' \<in> set urgent_categories
   \<and> ''headache'' \<notin> set emergency_categories
   \<and> ''consciousness'' \<in> set emergency_categories
   \<and> (\<exists>a advice other.
         analyze_symptoms ''severe headache and fainting'' = Inr (Analysed a)
         \<and> map category (red_flags a) = [''headache'', ''consciousness'']
         \<and> map pattern (red_flags a) = [''severe headache'', ''fainting'']
         \<and> urgency_level a = ''emergency''
         \<and> emergency_advice ''headache'' = Some advice
         \<and> emergency_advice ''consciousness'' = Some other
         \<and> specific_advice (red_flags a) = [advice]
         \<and> str_in advice (response a)
         \<and> \<not> str_in other (response a))"
proof -
  have cats: "''headache'' \<in> set urgent_categories \<and> ''headache'' \<notin> set emergency_categories
      \<and> ''consciousness'' \<in> set emergency_categories \<and> length emergency_advice_items = 9"
    by (simp add: urgent_categories_def emergency_categories_def emergency_advice_items_def)
  have "\<exists>a advice other.
         analyze_symptoms ''severe headache and fainting'' = Inr (Analysed a)
         \<and> map category (red_flags a) = [''headache'', ''consciousness'']
         \<and> map pattern (red_flags a) = [''severe headache'', ''fainting'']
         \<and> urgency_level a = ''emergency''
         \<and> emergency_advice ''headache'' = Some advice
         \<and> emergency_advice ''consciousness'' = Some other
         \<and> specific_advice (red_flags a) = [advice]
         \<and> str_in advice (response a)
         \<and> \<not> str_in other (response a)"
    using headache_advice_rendered by (simp add: analyze_headache_fainting)
  with cats dom_emergency_advice show ?thesis by blast
qed

end
